theory Spec2Isabelle
  imports Main "HOL-Library.AList"
begin

section \<open>Common notions: byte strings, errors, panics\<close>

text \<open>
  A Go \<^verbatim>\<open>string\<close> and a Go \<^verbatim>\<open>[]byte\<close> are byte sequences; a HOL \<open>char\<close> is one byte.
\<close>

type_synonym bytes = string

text \<open>\<^verbatim>\<open>strings.HasPrefix\<close> and \<^verbatim>\<open>strings.HasSuffix\<close>.\<close>

definition HasPrefix :: "string \<Rightarrow> string \<Rightarrow> bool" where
  "HasPrefix s p = (take (length p) s = p)"

definition HasSuffix :: "string \<Rightarrow> string \<Rightarrow> bool" where
  "HasSuffix s suf = (length suf \<le> length s \<and> drop (length s - length suf) s = suf)"

text \<open>The error code of package \<^verbatim>\<open>mcode\<close> used by the dispatcher; every other code is
  an opaque number.\<close>

datatype code = CodeValidationFailed | CodeOther int

text \<open>One reported field failure of \<^verbatim>\<open>validator.ValidationErrors\<close>: its namespace (the key
  under which \<^verbatim>\<open>Translate\<close> files it) and the message the translator gives for it.\<close>

record fieldError =
  ns :: string
  translated :: string

text \<open>
  Go's \<^verbatim>\<open>error\<close> values that the two packages create, receive or pass on:
  \<^verbatim>\<open>fmt.Errorf(msg)\<close>, the two errors of a done context, the validator's collection of
  field errors, \<^verbatim>\<open>merror.NewCode(code, msg)\<close>, and any other error (of the transport, of
  the binder, of \<^verbatim>\<open>io.ReadAll\<close>, of response parsing), known by its message.
\<close>

datatype error =
    Errorf string
  | Canceled
  | DeadlineExceeded
  | ValidationErrors "fieldError list"
  | NewCode code string
  | OtherError string

text \<open>A call either panics (with the runtime's message) or returns.\<close>

datatype 'a outcome = Panic string | Return 'a

definition nilDeref :: string where
  "nilDeref = ''invalid memory address or nil pointer dereference''"

definition nilMap :: string where
  "nilMap = ''assignment to entry in nil map''"


section \<open>Package mhttp: the handler contract\<close>

text \<open>
  What \<^verbatim>\<open>checkMethodSignature\<close> reads of a \<^verbatim>\<open>reflect.Type\<close>: its kind, its name, the type
  it points to, and which of the two interfaces asked about it implements.
\<close>

datatype kind = Bool | Int | String | Struct | Interface | Func | Ptr | Slice | Map

datatype iface = ContextIface | ErrorIface

datatype rtype = RType (Kind: kind) (Name: string) (Elem: "rtype option") (impls: "iface list")

definition Implements :: "rtype \<Rightarrow> iface \<Rightarrow> bool" where
  "Implements t u = (u \<in> set (impls t))"

text \<open>\<^verbatim>\<open>reqType.Elem().Name()\<close>; \<^verbatim>\<open>Elem\<close> is only called on a pointer type, which has one.\<close>

definition ElemName :: "rtype \<Rightarrow> string" where
  "ElemName t = (case Elem t of None \<Rightarrow> '''' | Some e \<Rightarrow> Name e)"

text \<open>A function type: the types of its inputs (the receiver first) and of its outputs.\<close>

record functype =
  ins :: "rtype list"
  outs :: "rtype list"

definition NumIn :: "functype \<Rightarrow> nat" where
  "NumIn typ = length (ins typ)"

definition NumOut :: "functype \<Rightarrow> nat" where
  "NumOut typ = length (outs typ)"

definition In :: "functype \<Rightarrow> nat \<Rightarrow> rtype" where
  "In typ i = ins typ ! i"

definition Out :: "functype \<Rightarrow> nat \<Rightarrow> rtype" where
  "Out typ i = outs typ ! i"

text \<open>
  \<^verbatim>\<open>checkMethodSignature\<close>, statement by statement; \<open>None\<close> is the \<^verbatim>\<open>nil\<close> error.
  \<^verbatim>\<open>In(1)\<close>, \<^verbatim>\<open>In(2)\<close>, \<^verbatim>\<open>Out(0)\<close> and \<^verbatim>\<open>Out(1)\<close> are only reached once the first check
  has found three inputs and two outputs, so they are in range.
\<close>

definition checkMethodSignature :: "functype \<Rightarrow> error option" where
  "checkMethodSignature typ =
     (if NumIn typ \<noteq> 3 \<or> NumOut typ \<noteq> 2 then
        Some (Errorf ''invalid method signature, required: func(*Controller) (context.Context, *XxxReq) (*XxxRes, error)'')
      else if \<not> Implements (In typ 1) ContextIface then
        Some (Errorf ''first parameter should be context.Context'')
      else if Kind (In typ 2) \<noteq> Ptr then
        Some (Errorf ''request parameter should be pointer type'')
      else if \<not> HasSuffix (ElemName (In typ 2)) ''Req'' then
        Some (Errorf (''request parameter should end with 'Req'' @ [CHR 0x27]))
      else if Kind (Out typ 0) \<noteq> Ptr then
        Some (Errorf ''response parameter should be pointer type'')
      else if \<not> HasSuffix (ElemName (Out typ 0)) ''Res'' then
        Some (Errorf (''response parameter should end with 'Res'' @ [CHR 0x27]))
      else if \<not> Implements (Out typ 1) ErrorIface then
        Some (Errorf ''second return value should be error'')
      else None)"

text \<open>
  The five checks in the words of the specification: (1) three inputs counting the
  receiver and two outputs, (2) the second input has the context capability, (3) the third
  input is a pointer to a type whose name ends in the request suffix, (4) the first output
  is a pointer to a type whose name ends in the response suffix, (5) the second output has
  the error capability.
\<close>

definition spec_check :: "nat \<Rightarrow> functype \<Rightarrow> bool" where
  "spec_check k typ =
     (if k = 1 then length (ins typ) = 3 \<and> length (outs typ) = 2
      else if k = 2 then ContextIface \<in> set (impls (ins typ ! 1))
      else if k = 3 then Kind (ins typ ! 2) = Ptr \<and> HasSuffix (ElemName (ins typ ! 2)) ''Req''
      else if k = 4 then Kind (outs typ ! 0) = Ptr \<and> HasSuffix (ElemName (outs typ ! 0)) ''Res''
      else if k = 5 then ErrorIface \<in> set (impls (outs typ ! 1))
      else True)"

text \<open>The first of the five checks that a type violates, in the order of the
  specification, if any.\<close>

definition firstViolated :: "functype \<Rightarrow> nat option" where
  "firstViolated typ =
     (case filter (\<lambda>k. \<not> spec_check k typ) [1, 2, 3, 4, 5] of [] \<Rightarrow> None | k # _ \<Rightarrow> Some k)"

text \<open>The errors that belong to each check: the third and the fourth check have one message
  for a non-pointer and one for a wrong suffix.\<close>

definition checkErrors :: "nat \<Rightarrow> error list" where
  "checkErrors k =
     (if k = 1 then
        [Errorf ''invalid method signature, required: func(*Controller) (context.Context, *XxxReq) (*XxxRes, error)'']
      else if k = 2 then [Errorf ''first parameter should be context.Context'']
      else if k = 3 then
        [Errorf ''request parameter should be pointer type'',
         Errorf (''request parameter should end with 'Req'' @ [CHR 0x27])]
      else if k = 4 then
        [Errorf ''response parameter should be pointer type'',
         Errorf (''response parameter should end with 'Res'' @ [CHR 0x27])]
      else if k = 5 then [Errorf ''second return value should be error'']
      else [])"

text \<open>
  Modelled from the spec: the registration step that calls \<^verbatim>\<open>checkMethodSignature\<close> is
  not among the sources. The specification says that the check is invoked once per handler
  registration, that any violation is a fatal error of registration, and that dispatch
  never validates again: so registering a handler type adds it to the table of
  dispatchable handlers exactly when the check returns no error, registering a list of
  handlers stops at the first error, and only handlers in the table are ever invoked.
\<close>

definition registerHandler :: "functype \<Rightarrow> functype list \<Rightarrow> error + functype list" where
  "registerHandler typ handlers =
     (case checkMethodSignature typ of
        Some e \<Rightarrow> Inl e
      | None \<Rightarrow> Inr (handlers @ [typ]))"

fun registerAll :: "functype list \<Rightarrow> functype list \<Rightarrow> error + functype list" where
  "registerAll [] handlers = Inr handlers"
| "registerAll (typ # typs) handlers =
     (case registerHandler typ handlers of
        Inl e \<Rightarrow> Inl e
      | Inr handlers' \<Rightarrow> registerAll typs handlers')"


section \<open>Package mhttp: handler dispatch\<close>

text \<open>
  \<^verbatim>\<open>validator.ValidationErrors.Translate\<close> returns a \<^verbatim>\<open>ValidationErrorsTranslations\<close>,
  which the validator library declares as \<^verbatim>\<open>map[string]string\<close>: it files the translated
  message of each field error under the error's namespace, in the reported order, a later
  entry replacing an earlier one with the same key. The map is an association list with
  distinct keys here.
\<close>

definition Translate :: "fieldError list \<Rightarrow> (string \<times> string) list" where
  "Translate ves = foldl (\<lambda>trans fe. AList.update (ns fe) (translated fe) trans) [] ves"

text \<open>
  \<^verbatim>\<open>handleRequest\<close>. Its collaborators are parameters:
  \<^item> \<open>ShouldBind\<close> is \<^verbatim>\<open>r.ShouldBind(req)\<close>: the error it returns and the request object as
    bound;
  \<^item> \<open>visit\<close> is the order in which \<^verbatim>\<open>range\<close> visits the entries of the map that
    \<^verbatim>\<open>Translate\<close> returned; Go leaves the iteration order of a map unspecified, so any
    permutation of the entries is a possible order;
  \<^item> \<open>handler\<close> is \<^verbatim>\<open>method.Func.Call\<close> on the receiver, the context and the bound request:
    the two results of the handler method.
  The result is the returned error and, when the handler response was set on the request,
  that response.
\<close>

definition handleRequest ::
  "('req \<Rightarrow> error option \<times> 'req) \<Rightarrow> ((string \<times> string) list \<Rightarrow> (string \<times> string) list) \<Rightarrow>
   ('ctx \<Rightarrow> 'req \<Rightarrow> 'res \<times> error option) \<Rightarrow> 'ctx \<Rightarrow> 'req \<Rightarrow> error option \<times> 'res option" where
  "handleRequest ShouldBind visit handler ctx req =
     (case ShouldBind req of
        (Some err, _) \<Rightarrow>
          (case err of
             ValidationErrors validationErrors \<Rightarrow>
               (let errMsgs = map snd (visit (Translate validationErrors))
                in (case errMsgs of
                      m # _ \<Rightarrow> (Some (NewCode CodeValidationFailed m), None)
                    | [] \<Rightarrow> (Some err, None)))
           | _ \<Rightarrow> (Some err, None))
      | (None, req') \<Rightarrow>
          (case handler ctx req' of
             (_, Some e) \<Rightarrow> (Some e, None)
           | (response, None) \<Rightarrow> (None, Some response)))"

section \<open>Package mclient: data\<close>

text \<open>Go's \<^verbatim>\<open>int\<close> and \<^verbatim>\<open>time.Duration\<close> are 64-bit signed integers (on a 64-bit platform):
  they are integers here, and \<open>int64\<close> is the wrap-around of an arithmetic result.\<close>

definition int64 :: "int \<Rightarrow> int" where
  "int64 x = (x + 2 ^ 63) mod 2 ^ 64 - 2 ^ 63"

text \<open>A \<^verbatim>\<open>context.Context\<close>: the background context or one made by the caller.\<close>

datatype Context = Background | Ctx nat

text \<open>
  \<^verbatim>\<open>http.Header\<close> and \<^verbatim>\<open>url.Values\<close> are Go maps from a key to a list of values: association
  lists with distinct keys, whose order stands for the order in which a \<^verbatim>\<open>range\<close> visits
  the map. A \<^verbatim>\<open>nil\<close> header map is \<open>None\<close>: reading it finds nothing, writing to it panics.
\<close>

type_synonym header = "(string \<times> string list) list"
type_synonym url_values = "(string \<times> string list) list"

text \<open>\<^verbatim>\<open>textproto.CanonicalMIMEHeaderKey\<close>, which \<^verbatim>\<open>Header.Get\<close> and \<^verbatim>\<open>Header.Set\<close> apply to the
  key: a key made of header-field bytes only gets an upper-case letter first and after
  each hyphen and lower-case letters elsewhere; any other key is left as it is.\<close>

definition validHeaderFieldByte :: "char \<Rightarrow> bool" where
  "validHeaderFieldByte c =
     (let n = (of_char c :: nat)
      in (48 \<le> n \<and> n \<le> 57) \<or> (65 \<le> n \<and> n \<le> 90) \<or> (97 \<le> n \<and> n \<le> 122)
         \<or> c \<in> set ''!#$%&*+-.^_`|~'' \<or> n = 39)"

fun canonicalLoop :: "bool \<Rightarrow> string \<Rightarrow> string" where
  "canonicalLoop upper [] = []"
| "canonicalLoop upper (c # cs) =
     (let n = (of_char c :: nat);
          c' = (if upper \<and> 97 \<le> n \<and> n \<le> 122 then char_of (n - 32)
                else if \<not> upper \<and> 65 \<le> n \<and> n \<le> 90 then char_of (n + 32)
                else c)
      in c' # canonicalLoop (c' = CHR ''-'') cs)"

definition CanonicalMIMEHeaderKey :: "string \<Rightarrow> string" where
  "CanonicalMIMEHeaderKey s = (if list_all validHeaderFieldByte s then canonicalLoop True s else s)"

definition Header_Get :: "header option \<Rightarrow> string \<Rightarrow> string" where
  "Header_Get h key =
     (case h of
        None \<Rightarrow> ''''
      | Some m \<Rightarrow>
          (case map_of m (CanonicalMIMEHeaderKey key) of
             None \<Rightarrow> ''''
           | Some [] \<Rightarrow> ''''
           | Some (v # _) \<Rightarrow> v))"

definition Header_Set :: "header \<Rightarrow> string \<Rightarrow> string \<Rightarrow> header" where
  "Header_Set m key v = AList.update (CanonicalMIMEHeaderKey key) [v] m"

text \<open>\<^verbatim>\<open>url.Values.Set\<close>.\<close>

definition Values_Set :: "url_values \<Rightarrow> string \<Rightarrow> string \<Rightarrow> url_values" where
  "Values_Set m key v = AList.update key [v] m"

text \<open>
  An \<^verbatim>\<open>io.Reader\<close> is an object on the heap: the bytes it has not yet delivered, and the
  error (if any) with which it fails once they are read, in place of the end of the stream.
  Two references to one reader share its position.
\<close>

type_synonym addr = nat

record reader =
  unread :: bytes
  fault :: "error option"

text \<open>The fields of \<^verbatim>\<open>http.Request\<close> that the package reads or writes; \<^verbatim>\<open>&http.Request{}\<close>
  is \<open>zeroRequest\<close>, and \<^verbatim>\<open>&http.Request{Header: make(http.Header)}\<close> is \<open>headerRequest\<close>.\<close>

record http_request =
  reqMethod :: string
  reqURL :: string
  reqHeader :: "header option"
  reqBody :: "addr option"
  reqCtx :: "Context option"

definition zeroRequest :: http_request where
  "zeroRequest = \<lparr>reqMethod = '''', reqURL = '''', reqHeader = None, reqBody = None, reqCtx = None\<rparr>"

definition headerRequest :: http_request where
  "headerRequest = zeroRequest\<lparr>reqHeader := Some []\<rparr>"

record http_response =
  StatusCode :: int

text \<open>\<^verbatim>\<open>mclient.Response\<close>, declared outside the sources at hand; the code builds it as
  \<^verbatim>\<open>&Response{Response: httpResp}\<close> and reads its field \<^verbatim>\<open>Response\<close>.\<close>

record response =
  Response :: "http_response option"

text \<open>The client's configuration, \<^verbatim>\<open>r.client.config\<close>.\<close>

record client =
  BaseURL :: string
  cfgHeader :: "header option"

text \<open>
  \<^verbatim>\<open>mclient.Request\<close>: the embedded \<^verbatim>\<open>*http.Request\<close> (\<open>None\<close> while it is \<^verbatim>\<open>nil\<close>) and
  the fields that the code uses. The fields \<^verbatim>\<open>ctx\<close>, \<^verbatim>\<open>timeout\<close>, \<^verbatim>\<open>header\<close>, \<^verbatim>\<open>query\<close>,
  \<^verbatim>\<open>form\<close>, \<^verbatim>\<open>body\<close> and \<^verbatim>\<open>contentType\<close> are never read or written by the code, and the
  two lists of middlewares are passed to the functions that need them, since a middleware
  is itself a function on requests.
\<close>

record request =
  Request :: "http_request option"
  client :: client
  response :: "response option"
  retryCount :: int
  retryInterval :: int
  queryParams :: url_values
  formParams :: url_values
  retryCondition :: "(http_response option \<Rightarrow> error option \<Rightarrow> bool) option"

text \<open>
  The world outside the request: the heap of readers with the next free address, and
  three ghost logs that record, in order, each call of the transport (the request it was
  given and the body bytes that request offered), each response closed, and each line
  written to the internal log. \<open>trace\<close> is a log for middlewares that want one.
\<close>

record world =
  readers :: "addr \<Rightarrow> reader"
  fresh :: addr
  calls :: "(http_request \<times> bytes) list"
  closed :: "response list"
  logs :: "string list"
  trace :: "string list"

text \<open>
  The collaborators, as parameters:
  \<^item> \<open>Do\<close> is the transport, \<^verbatim>\<open>r.client.Do\<close>: from the number of calls made before, the
    request and the body bytes it offers, to the response or error and the number of body
    bytes the transport has read;
  \<^item> \<open>Encode\<close> is \<^verbatim>\<open>url.Values.Encode\<close>;
  \<^item> \<open>NewRequestError\<close> is the error with which \<^verbatim>\<open>http.NewRequestWithContext\<close> refuses a
    method or a URL, if it does;
  \<^item> \<open>ParseResponse\<close> is \<^verbatim>\<open>Response.ParseResponse\<close>, declared outside the sources at hand;
  \<^item> \<open>ctxDone\<close> is the race of the retry wait after the given attempt: \<open>None\<close> when the
    timer fires first, and the value of \<^verbatim>\<open>ctx.Err()\<close> when the context is done first.
\<close>

record env =
  Do :: "nat \<Rightarrow> http_request \<Rightarrow> bytes \<Rightarrow> (error + http_response) \<times> nat"
  Encode :: "url_values \<Rightarrow> string"
  NewRequestError :: "string \<Rightarrow> string \<Rightarrow> error option"
  ParseResponse :: "response \<Rightarrow> error option"
  ctxDone :: "nat \<Rightarrow> error option"

text \<open>A handler consumes a request and produces a response and an error; it may change
  the request it is given and the world, and it may panic. A middleware wraps a handler.\<close>

type_synonym result = "(response option \<times> error option) \<times> request \<times> world"
type_synonym handler = "request \<Rightarrow> world \<Rightarrow> result outcome"
type_synonym middleware = "handler \<Rightarrow> handler"


section \<open>Package mclient: readers and the transport\<close>

text \<open>\<^verbatim>\<open>strings.NewReader\<close> and \<^verbatim>\<open>bytes.NewReader\<close>: a new reader over the given bytes.\<close>

definition NewReader :: "bytes \<Rightarrow> world \<Rightarrow> addr \<times> world" where
  "NewReader bs w =
     (fresh w, w\<lparr>readers := (readers w)(fresh w := \<lparr>unread = bs, fault = None\<rparr>),
                fresh := Suc (fresh w)\<rparr>)"

text \<open>\<^verbatim>\<open>io.ReadAll\<close>: everything the reader still holds, or its error; the reader is left
  with nothing unread.\<close>

definition ReadAll :: "addr \<Rightarrow> world \<Rightarrow> (error + bytes) \<times> world" where
  "ReadAll a w =
     (let rd = readers w a;
          w' = w\<lparr>readers := (readers w)(a := rd\<lparr>unread := []\<rparr>)\<rparr>
      in (case fault rd of None \<Rightarrow> (Inr (unread rd), w') | Some e \<Rightarrow> (Inl e, w')))"

text \<open>\<^verbatim>\<open>r.client.Do(req)\<close>: the transport is called on the request and on what its body
  still holds, the call is logged, and the body's reader advances by what the transport
  read.\<close>

definition clientDo :: "env \<Rightarrow> http_request \<Rightarrow> world \<Rightarrow> (error + http_response) \<times> world" where
  "clientDo env req w =
     (let avail = (case reqBody req of None \<Rightarrow> [] | Some a \<Rightarrow> unread (readers w a));
          (res, n) = Do env (length (calls w)) req avail;
          w1 = w\<lparr>calls := calls w @ [(req, avail)]\<rparr>
      in (res, (case reqBody req of
                  None \<Rightarrow> w1
                | Some a \<Rightarrow> w1\<lparr>readers := (readers w1)(a := (readers w1 a)\<lparr>unread := drop n avail\<rparr>)\<rparr>)))"

text \<open>Modelled from the spec: \<^verbatim>\<open>Response.Close\<close> is not among the sources. It releases the
  stream of the response; the call is recorded in the log of closed responses.\<close>

definition Close :: "response \<Rightarrow> world \<Rightarrow> world" where
  "Close resp w = w\<lparr>closed := closed w @ [resp]\<rparr>"


section \<open>Package mclient: building a request\<close>

definition NewRequest :: "client \<Rightarrow> request" where
  "NewRequest c =
     \<lparr>Request = None, client = c, response = None, retryCount = 0, retryInterval = 0,
      queryParams = [], formParams = [], retryCondition = None\<rparr>"

definition SetResponse :: "request \<Rightarrow> response option \<Rightarrow> request" where
  "SetResponse r resp = r\<lparr>response := resp\<rparr>"

text \<open>\<^verbatim>\<open>SetContext\<close>: a \<^verbatim>\<open>nil\<close> embedded request becomes \<^verbatim>\<open>&http.Request{}\<close>, whose header map
  is \<^verbatim>\<open>nil\<close>; \<^verbatim>\<open>WithContext\<close> copies the request and sets its context.\<close>

definition SetContext :: "request \<Rightarrow> Context option \<Rightarrow> request" where
  "SetContext r c =
     (let hr = (case Request r of None \<Rightarrow> zeroRequest | Some hr \<Rightarrow> hr)
      in (case c of
            None \<Rightarrow> r\<lparr>Request := Some hr\<rparr>
          | Some _ \<Rightarrow> r\<lparr>Request := Some (hr\<lparr>reqCtx := c\<rparr>)\<rparr>))"

definition Method :: "request \<Rightarrow> string \<Rightarrow> request" where
  "Method r method =
     (let hr = (case Request r of None \<Rightarrow> headerRequest | Some hr \<Rightarrow> hr)
      in r\<lparr>Request := Some (hr\<lparr>reqMethod := method\<rparr>)\<rparr>)"

text \<open>\<^verbatim>\<open>Header\<close>: \<^verbatim>\<open>r.Request.Header.Set(key, value)\<close> is an assignment to a map entry, which
  panics when the map is \<^verbatim>\<open>nil\<close>.\<close>

definition Header :: "request \<Rightarrow> string \<Rightarrow> string \<Rightarrow> request outcome" where
  "Header r key v =
     (let hr = (case Request r of None \<Rightarrow> headerRequest | Some hr \<Rightarrow> hr)
      in (case reqHeader hr of
            None \<Rightarrow> Panic nilMap
          | Some m \<Rightarrow> Return (r\<lparr>Request := Some (hr\<lparr>reqHeader := Some (Header_Set m key v)\<rparr>)\<rparr>)))"

definition SetHeader :: "request \<Rightarrow> string \<Rightarrow> string \<Rightarrow> request outcome" where
  "SetHeader r key v = Header r key v"

definition ContentType :: "request \<Rightarrow> string \<Rightarrow> request outcome" where
  "ContentType r contentType = Header r ''Content-Type'' contentType"

text \<open>
  The argument of \<^verbatim>\<open>Data\<close> by the branch of the type switch it takes: a string, a byte
  slice, a reader (which is a reference to an object on the heap), or any other value,
  which is given by what \<^verbatim>\<open>json.Marshal\<close> returns for it.
\<close>

datatype data = DString string | DBytes bytes | DReader addr | DOther "error + bytes"

text \<open>\<^verbatim>\<open>io.NopCloser(d)\<close> wraps the reader \<^verbatim>\<open>d\<close> itself and reads nothing: the body is the same
  object as the reader.\<close>

definition setBody :: "request \<Rightarrow> http_request \<Rightarrow> addr \<Rightarrow> request" where
  "setBody r hr a = r\<lparr>Request := Some (hr\<lparr>reqBody := Some a\<rparr>)\<rparr>"

definition Data :: "request \<Rightarrow> data \<Rightarrow> world \<Rightarrow> (request \<times> world) outcome" where
  "Data r d w =
     (let hr = (case Request r of None \<Rightarrow> headerRequest | Some hr \<Rightarrow> hr);
          r0 = r\<lparr>Request := Some hr\<rparr>
      in (case d of
            DString s \<Rightarrow> (let (a, w1) = NewReader s w in Return (setBody r0 hr a, w1))
          | DBytes b \<Rightarrow> (let (a, w1) = NewReader b w in Return (setBody r0 hr a, w1))
          | DReader a \<Rightarrow> Return (setBody r0 hr a, w)
          | DOther marshalled \<Rightarrow>
              (case marshalled of
                 Inl err \<Rightarrow> Return (r0, w\<lparr>logs := logs w @ [''JSON marshal failed:'']\<rparr>)
               | Inr jsonBytes \<Rightarrow>
                   (let (a, w1) = NewReader jsonBytes w;
                        r1 = setBody r0 hr a
                    in if Header_Get (reqHeader hr) ''Content-Type'' = '''' then
                         (case ContentType r1 ''application/json'' of
                            Panic p \<Rightarrow> Panic p
                          | Return r2 \<Rightarrow> Return (r2, w1))
                       else Return (r1, w1)))))"

definition SetBody :: "request \<Rightarrow> data \<Rightarrow> world \<Rightarrow> (request \<times> world) outcome" where
  "SetBody r body w = Data r body w"

definition SetForm :: "request \<Rightarrow> string \<Rightarrow> string \<Rightarrow> request" where
  "SetForm r key v = r\<lparr>formParams := Values_Set (formParams r) key v\<rparr>"

definition SetQuery :: "request \<Rightarrow> string \<Rightarrow> string \<Rightarrow> request" where
  "SetQuery r key v = r\<lparr>queryParams := Values_Set (queryParams r) key v\<rparr>"

definition SetRetry :: "request \<Rightarrow> int \<Rightarrow> int \<Rightarrow> request" where
  "SetRetry r count interval = r\<lparr>retryCount := count, retryInterval := interval\<rparr>"

definition SetRetryCondition ::
  "request \<Rightarrow> (http_response option \<Rightarrow> error option \<Rightarrow> bool) option \<Rightarrow> request" where
  "SetRetryCondition r condition = r\<lparr>retryCondition := condition\<rparr>"

definition shouldRetry :: "request \<Rightarrow> http_response option \<Rightarrow> error option \<Rightarrow> bool" where
  "shouldRetry r resp err =
     (case retryCondition r of
        Some condition \<Rightarrow> condition resp err
      | None \<Rightarrow>
          (if err \<noteq> None then True
           else (case resp of
                   Some hresp \<Rightarrow> StatusCode hresp \<ge> 500 \<or> StatusCode hresp = 429
                 | None \<Rightarrow> False)))"


section \<open>Package mclient: one attempt\<close>

text \<open>The first block of \<^verbatim>\<open>attemptRequest\<close>: the full URL from the client's base URL and the
  path. \<^verbatim>\<open>urlPath[1:]\<close> is only reached for a path that begins with a slash.\<close>

definition fullURL :: "string \<Rightarrow> string \<Rightarrow> string" where
  "fullURL base urlPath =
     (if base \<noteq> '''' \<and> \<not> HasPrefix urlPath ''http://'' \<and> \<not> HasPrefix urlPath ''https://'' then
        (if \<not> HasSuffix base ''/'' \<and> \<not> HasPrefix urlPath ''/'' then (base @ ''/'') @ urlPath
         else if HasSuffix base ''/'' \<and> HasPrefix urlPath ''/'' then base @ drop 1 urlPath
         else base @ urlPath)
      else urlPath)"

text \<open>The second block: the query parameters; \<^verbatim>\<open>strings.Contains(fullURL, "?")\<close> asks for
  one byte.\<close>

definition withQuery :: "env \<Rightarrow> url_values \<Rightarrow> string \<Rightarrow> string" where
  "withQuery env params url =
     (if length params > 0 then
        (if CHR ''?'' \<in> set url then url @ ''&'' @ Encode env params
         else url @ ''?'' @ Encode env params)
      else url)"

text \<open>
  The third block: the body of this attempt. With form parameters the body is a new
  reader over their encoding, and the content type is set on the embedded request.
  Otherwise a body on the embedded request is read to its end; the bytes go into two new
  readers, one for this attempt and one put back on the embedded request. If reading
  fails, the body itself is used.
\<close>

definition resolveBody :: "env \<Rightarrow> request \<Rightarrow> world \<Rightarrow> (addr option \<times> request \<times> world) outcome" where
  "resolveBody env r w =
     (if length (formParams r) > 0 then
        (let (body, w1) = NewReader (Encode env (formParams r)) w;
             r1 = (if Request r = None then r\<lparr>Request := Some headerRequest\<rparr> else r)
         in (case ContentType r1 ''application/x-www-form-urlencoded'' of
               Panic p \<Rightarrow> Panic p
             | Return r2 \<Rightarrow> Return (Some body, r2, w1)))
      else
        (case Request r of
           None \<Rightarrow> Return (None, r, w)
         | Some hr \<Rightarrow>
             (case reqBody hr of
                None \<Rightarrow> Return (None, r, w)
              | Some b \<Rightarrow>
                  (case ReadAll b w of
                     (Inr bodyBytes, w1) \<Rightarrow>
                       (let (body, w2) = NewReader bodyBytes w1;
                            (kept, w3) = NewReader bodyBytes w2
                        in Return (Some body, setBody r hr kept, w3))
                   | (Inl err, w1) \<Rightarrow> Return (Some b, r, w1)))))"

text \<open>The two loops that copy headers: the first value of each key with a non-empty value
  list is set on the new request.\<close>

fun copyHeaders :: "header \<Rightarrow> header \<Rightarrow> header" where
  "copyHeaders [] h = h"
| "copyHeaders ((k, v) # kvs) h =
     copyHeaders kvs (case v of [] \<Rightarrow> h | v0 # _ \<Rightarrow> Header_Set h k v0)"

definition copyHeadersOpt :: "header option \<Rightarrow> header \<Rightarrow> header" where
  "copyHeadersOpt src h = (case src of None \<Rightarrow> h | Some m \<Rightarrow> copyHeaders m h)"

text \<open>\<^verbatim>\<open>http.NewRequestWithContext\<close>: an empty method stands for \<open>GET\<close>; it refuses a \<^verbatim>\<open>nil\<close>
  context, and what else the collaborator refuses; the new request has an empty header map,
  and its body is the reader it was given.\<close>

definition NewRequestWithContext ::
  "env \<Rightarrow> Context option \<Rightarrow> string \<Rightarrow> string \<Rightarrow> addr option \<Rightarrow> error + http_request" where
  "NewRequestWithContext env c method url body =
     (let m = (if method = '''' then ''GET'' else method)
      in (case c of
            None \<Rightarrow> Inl (OtherError ''net/http: nil Context'')
          | Some _ \<Rightarrow>
              (case NewRequestError env m url of
                 Some err \<Rightarrow> Inl err
               | None \<Rightarrow>
                   Inr \<lparr>reqMethod = m, reqURL = url, reqHeader = Some [], reqBody = body,
                        reqCtx = c\<rparr>)))"

text \<open>The base handler of the chain: the transport call on the embedded request of the
  request it is given.\<close>

definition baseHandler :: "env \<Rightarrow> handler" where
  "baseHandler env req w =
     (case Request req of
        None \<Rightarrow> Panic nilDeref
      | Some hr \<Rightarrow>
          (case clientDo env hr w of
             (Inl err, w1) \<Rightarrow> Return ((None, Some err), req, w1)
           | (Inr httpResp, w1) \<Rightarrow>
               Return ((Some \<lparr>Response = Some httpResp\<rparr>, None), req, w1)))"

text \<open>The loop \<^verbatim>\<open>for i := len(middlewares) - 1; i >= 0; i-- { handler =
  middlewares[i](handler) }\<close>; the counter \<open>n\<close> is \<open>i + 1\<close>.\<close>

fun applyMiddlewares :: "middleware list \<Rightarrow> nat \<Rightarrow> handler \<Rightarrow> handler" where
  "applyMiddlewares middlewares 0 handler = handler"
| "applyMiddlewares middlewares (Suc i) handler =
     applyMiddlewares middlewares i ((middlewares ! i) handler)"

text \<open>The chain that an attempt executes, from the client's middlewares followed by the
  request's.\<close>

definition chain :: "env \<Rightarrow> middleware list \<Rightarrow> handler" where
  "chain env middlewares = applyMiddlewares middlewares (length middlewares) (baseHandler env)"

text \<open>\<^verbatim>\<open>attemptRequest\<close>; \<open>cms\<close> are the client's middlewares and \<open>rms\<close> the request's.\<close>

definition attemptRequest ::
  "env \<Rightarrow> middleware list \<Rightarrow> middleware list \<Rightarrow> request \<Rightarrow> Context option \<Rightarrow> string \<Rightarrow> string \<Rightarrow>
   world \<Rightarrow> result outcome" where
  "attemptRequest env cms rms r c method urlPath w =
     (let url = withQuery env (queryParams r) (fullURL (BaseURL (client r)) urlPath)
      in (case resolveBody env r w of
            Panic p \<Rightarrow> Panic p
          | Return (body, r1, w1) \<Rightarrow>
              (case NewRequestWithContext env c method url body of
                 Inl err \<Rightarrow> Return ((None, Some err), r1, w1)
               | Inr req0 \<Rightarrow>
                   (let h1 = copyHeadersOpt (cfgHeader (client r1)) [];
                        h2 = copyHeadersOpt
                               (case Request r1 of None \<Rightarrow> None | Some hr \<Rightarrow> reqHeader hr) h1;
                        req = req0\<lparr>reqHeader := Some h2\<rparr>;
                        r2 = r1\<lparr>Request := Some req\<rparr>;
                        middlewares = cms @ rms
                    in if length middlewares > 0 then
                         (case chain env middlewares r2 w1 of
                            Panic p \<Rightarrow> Panic p
                          | Return ((resp, err), r3, w2) \<Rightarrow>
                              (case err of
                                 Some e \<Rightarrow> Return ((None, Some e), r3, w2)
                               | None \<Rightarrow> Return ((resp, None), SetResponse r3 resp, w2)))
                       else
                         (case clientDo env req w1 of
                            (Inl err, w2) \<Rightarrow> Return ((None, Some err), r2, w2)
                          | (Inr httpResp, w2) \<Rightarrow>
                              (let resp = Some \<lparr>Response = Some httpResp\<rparr>
                               in Return ((resp, None), SetResponse r2 resp, w2)))))))"


section \<open>Package mclient: the retry loop\<close>

text \<open>What follows the loop of \<^verbatim>\<open>DoRequest\<close>: the error, or the parsed response.\<close>

definition afterLoop :: "env \<Rightarrow> response option \<Rightarrow> error option \<Rightarrow> request \<Rightarrow> world \<Rightarrow> result outcome" where
  "afterLoop env resp err r w =
     (case err of
        Some e \<Rightarrow> Return ((None, Some e), r, w)
      | None \<Rightarrow>
          (case resp of
             None \<Rightarrow> Panic nilDeref
           | Some rs \<Rightarrow>
               (case ParseResponse env rs of
                  Some e \<Rightarrow> Return ((None, Some e), r, Close rs w)
                | None \<Rightarrow> Return ((Some rs, None), r, w))))"

text \<open>The line written to the internal log before a retry, when the embedded request is
  there.\<close>

definition logRetry :: "request \<Rightarrow> world \<Rightarrow> world" where
  "logRetry r w =
     (case Request r of None \<Rightarrow> w | Some _ \<Rightarrow> w\<lparr>logs := logs w @ [''Retrying request'']\<rparr>)"

text \<open>
  The loop of \<^verbatim>\<open>DoRequest\<close>, entered with the number of attempts made so far.
  \<^verbatim>\<open>resp.Response\<close> is evaluated before \<^verbatim>\<open>shouldRetry\<close> is called and dereferences \<^verbatim>\<open>resp\<close>,
  which panics when the attempt returned a \<^verbatim>\<open>nil\<close> response. The \<^verbatim>\<open>select\<close> of the retry
  wait reads \<^verbatim>\<open>ctx.Done()\<close>, which panics on a \<^verbatim>\<open>nil\<close> context.
\<close>

function DoRequest_loop ::
  "env \<Rightarrow> middleware list \<Rightarrow> middleware list \<Rightarrow> Context option \<Rightarrow> string \<Rightarrow> string \<Rightarrow> int \<Rightarrow> int \<Rightarrow>
   response option \<Rightarrow> error option \<Rightarrow> request \<Rightarrow> world \<Rightarrow> result outcome" where
  "DoRequest_loop env cms rms c method urlPath maxAttempts attempts resp err r w =
     (if attempts < maxAttempts then
        (case attemptRequest env cms rms r c method urlPath w of
           Panic p \<Rightarrow> Panic p
         | Return ((resp1, err1), r1, w1) \<Rightarrow>
             (case resp1 of
                None \<Rightarrow> Panic nilDeref
              | Some rs \<Rightarrow>
                  (if \<not> shouldRetry r1 (Response rs) err1 \<or> attempts + 1 \<ge> maxAttempts then
                     afterLoop env resp1 err1 r1 w1
                   else
                     (let w2 = logRetry r1 (Close rs w1)
                      in if retryInterval r1 > 0 then
                           (case c of
                              None \<Rightarrow> Panic nilDeref
                            | Some _ \<Rightarrow>
                                (case ctxDone env (nat (attempts + 1)) of
                                   Some cerr \<Rightarrow> Return ((None, Some cerr), r1, w2)
                                 | None \<Rightarrow>
                                     DoRequest_loop env cms rms c method urlPath maxAttempts
                                       (attempts + 1) None err1 r1 w2))
                         else
                           DoRequest_loop env cms rms c method urlPath maxAttempts
                             (attempts + 1) None err1 r1 w2))))
      else afterLoop env resp err r w)"
  by pat_completeness auto
termination
  by (relation "measure (\<lambda>(env, cms, rms, c, method, urlPath, maxAttempts, attempts, rest).
         nat (maxAttempts - attempts))") auto

definition DoRequest ::
  "env \<Rightarrow> middleware list \<Rightarrow> middleware list \<Rightarrow> request \<Rightarrow> Context option \<Rightarrow> string \<Rightarrow> string \<Rightarrow>
   world \<Rightarrow> result outcome" where
  "DoRequest env cms rms r c method urlPath w =
     (let maxAttempts = int64 (retryCount r + 1);
          maxAttempts = (if maxAttempts \<le> 0 then 1 else maxAttempts)
      in DoRequest_loop env cms rms c method urlPath maxAttempts 0 None None r w)"

text \<open>\<^verbatim>\<open>(*http.Request).Context\<close> reads a field of its receiver, which panics on a \<^verbatim>\<open>nil\<close>
  receiver; it returns the background context when none was set.\<close>

definition Request_Context :: "http_request option \<Rightarrow> Context outcome" where
  "Request_Context hr =
     (case hr of
        None \<Rightarrow> Panic nilDeref
      | Some q \<Rightarrow> Return (case reqCtx q of None \<Rightarrow> Background | Some c \<Rightarrow> c))"

text \<open>\<^verbatim>\<open>Send\<close>: in both branches the arguments of \<^verbatim>\<open>DoRequest\<close>, the first of which is
  \<^verbatim>\<open>r.Request.Context()\<close>, are evaluated before the call.\<close>

definition Send ::
  "env \<Rightarrow> middleware list \<Rightarrow> middleware list \<Rightarrow> request \<Rightarrow> string \<Rightarrow> world \<Rightarrow> result outcome" where
  "Send env cms rms r url w =
     (if (case Request r of None \<Rightarrow> True | Some hr \<Rightarrow> reqMethod hr = '''') then
        (case Request_Context (Request r) of
           Panic p \<Rightarrow> Panic p
         | Return c \<Rightarrow> DoRequest env cms rms r (Some c) ''GET'' url w)
      else
        (case Request_Context (Request r) of
           Panic p \<Rightarrow> Panic p
         | Return c \<Rightarrow>
             DoRequest env cms rms r (Some c)
               (case Request r of None \<Rightarrow> '''' | Some hr \<Rightarrow> reqMethod hr) url w))"

definition GET ::
  "env \<Rightarrow> middleware list \<Rightarrow> middleware list \<Rightarrow> request \<Rightarrow> string \<Rightarrow> world \<Rightarrow> result outcome" where
  "GET env cms rms r url w = Send env cms rms (Method r ''GET'') url w"

definition POST ::
  "env \<Rightarrow> middleware list \<Rightarrow> middleware list \<Rightarrow> request \<Rightarrow> string \<Rightarrow> world \<Rightarrow> result outcome" where
  "POST env cms rms r url w = Send env cms rms (Method r ''POST'') url w"


section \<open>Fixtures\<close>

text \<open>An empty world, a client with a base URL, and stub collaborators: an encoding of
  parameters as \<open>k=v\<close> joined by \<open>&\<close>, a request constructor and a parser that never fail,
  and a context that is never done.\<close>

definition world0 :: world where
  "world0 = \<lparr>readers = (\<lambda>_. \<lparr>unread = [], fault = None\<rparr>), fresh = 0, calls = [], closed = [],
             logs = [], trace = []\<rparr>"

definition client0 :: client where
  "client0 = \<lparr>BaseURL = ''http://x'', cfgHeader = None\<rparr>"

fun plainEncode :: "url_values \<Rightarrow> string" where
  "plainEncode [] = ''''"
| "plainEncode [(k, v)] = k @ ''='' @ concat v"
| "plainEncode ((k, v) # kvs) = k @ ''='' @ concat v @ ''&'' @ plainEncode kvs"

definition stubEnv :: "(nat \<Rightarrow> http_request \<Rightarrow> bytes \<Rightarrow> (error + http_response) \<times> nat) \<Rightarrow> env" where
  "stubEnv transport =
     \<lparr>Do = transport, Encode = plainEncode, NewRequestError = (\<lambda>_ _. None),
      ParseResponse = (\<lambda>_. None), ctxDone = (\<lambda>_. None)\<rparr>"

text \<open>A transport that fails on every call without reading the body, and one that reads
  the whole body and answers with the given status.\<close>

definition refusing :: "nat \<Rightarrow> http_request \<Rightarrow> bytes \<Rightarrow> (error + http_response) \<times> nat" where
  "refusing i req avail = (Inl (OtherError ''connection refused''), 0)"

definition answering :: "int \<Rightarrow> nat \<Rightarrow> http_request \<Rightarrow> bytes \<Rightarrow> (error + http_response) \<times> nat" where
  "answering status i req avail = (Inr \<lparr>StatusCode = status\<rparr>, length avail)"

text \<open>A middleware that records in the trace when the request passes it on the way in and
  when the response passes it on the way out, and one that answers by itself without
  calling the handler it wraps.\<close>

definition observing :: "string \<Rightarrow> middleware" where
  "observing name next r w =
     (case next r (w\<lparr>trace := trace w @ [name @ '' in'']\<rparr>) of
        Panic p \<Rightarrow> Panic p
      | Return (res, r', w') \<Rightarrow> Return (res, r', w'\<lparr>trace := trace w' @ [name @ '' out'']\<rparr>))"

definition answeringItself :: "string \<Rightarrow> response option \<times> error option \<Rightarrow> middleware" where
  "answeringItself name res next r w = Return (res, r, w\<lparr>trace := trace w @ [name @ '' alone'']\<rparr>)"


text \<open>What a finished call shows: the panic it ended with, the pair it returned, the transport calls so far, the
  body bytes those calls were offered, and the trace.\<close>

definition panicked :: "'a outcome \<Rightarrow> string option" where
  "panicked out = (case out of Panic p \<Rightarrow> Some p | Return x \<Rightarrow> None)"

definition returned :: "result outcome \<Rightarrow> (response option \<times> error option) option" where
  "returned out = (case out of Panic p \<Rightarrow> None | Return (res, r, w) \<Rightarrow> Some res)"

definition callsOf :: "result outcome \<Rightarrow> (http_request \<times> bytes) list" where
  "callsOf out = (case out of Panic p \<Rightarrow> [] | Return (res, r, w) \<Rightarrow> calls w)"

definition sentBodies :: "result outcome \<Rightarrow> bytes list" where
  "sentBodies out = map snd (callsOf out)"

definition traceOf :: "result outcome \<Rightarrow> string list" where
  "traceOf out = (case out of Panic p \<Rightarrow> [] | Return (res, r, w) \<Rightarrow> trace w)"

text \<open>The composition of the chain in the words of the specification: start with the
  terminal handler and, for each middleware in reverse registration order, wrap the current
  handler.\<close>

definition Compose :: "handler \<Rightarrow> middleware list \<Rightarrow> handler" where
  "Compose terminal middlewares = foldl (\<lambda>current m. m current) terminal (rev middlewares)"

text \<open>The join of a base URL and a path in the words of the specification: base, one
  slash, path, with exactly one separating slash whatever slashes the base ends with and
  the path begins with.\<close>

definition isSlash :: "char \<Rightarrow> bool" where
  "isSlash ch = (ch = CHR ''/'')"

definition spec_join :: "string \<Rightarrow> string \<Rightarrow> string" where
  "spec_join base path = rev (dropWhile isSlash (rev base)) @ ''/'' @ dropWhile isSlash path"

text \<open>What \<^verbatim>\<open>attemptRequest\<close> hands to the chain: the request after the body is resolved,
  with the new embedded request and its merged headers. And what it makes of the chain's
  outcome: an error is returned without a response, and otherwise the response is set on
  the request and returned.\<close>

definition handed :: "request \<Rightarrow> http_request \<Rightarrow> request" where
  "handed r1 req0 =
     r1\<lparr>Request := Some (req0\<lparr>reqHeader := Some
           (copyHeadersOpt (case Request r1 of None \<Rightarrow> None | Some hr \<Rightarrow> reqHeader hr)
              (copyHeadersOpt (cfgHeader (client r1)) []))\<rparr>)\<rparr>"

definition afterChain :: "result outcome \<Rightarrow> result outcome" where
  "afterChain out =
     (case out of
        Panic p \<Rightarrow> Panic p
      | Return ((resp, err), r3, w2) \<Rightarrow>
          (case err of
             Some e \<Rightarrow> Return ((None, Some e), r3, w2)
           | None \<Rightarrow> Return ((resp, None), SetResponse r3 resp, w2)))"

text \<open>A request with retry count 1 and no wait; the same request after \<^verbatim>\<open>SetBody("abc")\<close>,
  sent with \<^verbatim>\<open>POST\<close> to a transport that reads the body and answers 500 each time; a world
  in which the caller holds a reader over \<open>abc\<close> at address 0.\<close>

definition retrying :: request where
  "retrying = SetRetry (NewRequest client0) 1 0"

definition postAbc :: "result outcome" where
  "postAbc =
     (case SetBody retrying (DString ''abc'') world0 of
        Panic p \<Rightarrow> Panic p
      | Return (r, w) \<Rightarrow> POST (stubEnv (answering 500)) [] [] r ''/y'' w)"

definition streamWorld :: world where
  "streamWorld = snd (NewReader ''abc'' world0)"





definition sentGet :: http_request where
  "sentGet = \<lparr>reqMethod = ''GET'', reqURL = ''http://x/y'', reqHeader = Some [], reqBody = None,
             reqCtx = Some (Ctx 1)\<rparr>"


text \<open>A request with the method \<open>GET\<close> set, and the answer of a middleware that blocks
  it.\<close>

definition getReq :: request where
  "getReq = Method (NewRequest client0) ''GET''"

definition blocked :: "response option \<times> error option" where
  "blocked = (None, Some (OtherError ''blocked''))"


text \<open>The request that \<^verbatim>\<open>SetBody(reader)\<close> makes of a new request, for the reader at
  address 0; a new request after \<^verbatim>\<open>SetContext\<close>.\<close>

definition streamReq :: request where
  "streamReq = (NewRequest client0)\<lparr>Request := Some (headerRequest\<lparr>reqBody := Some 0\<rparr>)\<rparr>"

definition withContext :: request where
  "withContext = SetContext (NewRequest client0) (Some (Ctx 1))"

text \<open>The body and the content type that a request holds.\<close>

definition bodyOf :: "request \<Rightarrow> addr option" where
  "bodyOf r = (case Request r of None \<Rightarrow> None | Some hr \<Rightarrow> reqBody hr)"

definition contentTypeOf :: "request \<Rightarrow> string" where
  "contentTypeOf r =
     (case Request r of None \<Rightarrow> '''' | Some hr \<Rightarrow> Header_Get (reqHeader hr) ''Content-Type'')"

text \<open>The embedded request does not have a \<^verbatim>\<open>nil\<close> header map: either it is unset (and
  then created with a map), or it was created with one.\<close>

definition headerReady :: "request \<Rightarrow> bool" where
  "headerReady r =
     (case Request r of None \<Rightarrow> True | Some hr \<Rightarrow> (case reqHeader hr of None \<Rightarrow> False | Some m \<Rightarrow> True))"


text \<open>
  Example handler types: the method \<^verbatim>\<open>func (c *Controller) Hello(ctx context.Context,
  req *HelloReq) (*HelloRes, error)\<close>, and the same method with a \<^verbatim>\<open>string\<close> in the place
  of the context.
\<close>

definition ptrTo :: "string \<Rightarrow> rtype" where
  "ptrTo n = RType Ptr '''' (Some (RType Struct n None [])) []"

definition helloType :: functype where
  "helloType =
     \<lparr>ins = [ptrTo ''Controller'', RType Interface ''Context'' None [ContextIface], ptrTo ''HelloReq''],
      outs = [ptrTo ''HelloRes'', RType Interface ''error'' None [ErrorIface]]\<rparr>"

definition noContextType :: functype where
  "noContextType =
     \<lparr>ins = [ptrTo ''Controller'', RType String ''string'' None [], ptrTo ''HelloReq''],
      outs = [ptrTo ''HelloRes'', RType Interface ''error'' None [ErrorIface]]\<rparr>"

text \<open>A binding failure that reports two invalid fields, \<open>Name\<close> first.\<close>

definition twoFieldErrors :: "fieldError list" where
  "twoFieldErrors =
     [\<lparr>ns = ''HelloReq.Name'', translated = ''Name is a required field''\<rparr>,
      \<lparr>ns = ''HelloReq.Age'', translated = ''Age must be 18 or greater''\<rparr>]"


section \<open>Properties of package mhttp\<close>

subsection \<open>The contract check\<close>

lemma firstViolated_cases:
  "firstViolated typ =
     (if \<not> spec_check 1 typ then Some 1 else if \<not> spec_check 2 typ then Some 2
      else if \<not> spec_check 3 typ then Some 3 else if \<not> spec_check 4 typ then Some 4
      else if \<not> spec_check 5 typ then Some 5 else None)"
  unfolding firstViolated_def by simp

lemma check_follows_spec:
  "case firstViolated typ of
     None \<Rightarrow> checkMethodSignature typ = None
   | Some k \<Rightarrow> (\<exists>e. checkMethodSignature typ = Some e \<and> e \<in> set (checkErrors k))"
  unfolding firstViolated_cases
  by (simp add: spec_check_def checkMethodSignature_def checkErrors_def NumIn_def NumOut_def
      In_def Out_def Implements_def)

lemma checkErrors_distinct: "distinct (concat (map checkErrors [1, 2, 3, 4, 5]))"
  by (simp add: checkErrors_def)

lemma check_None_iff: "checkMethodSignature typ = None \<longleftrightarrow> firstViolated typ = None"
  using check_follows_spec [of "typ"] by (cases "firstViolated typ") auto

lemma registerAll_checked:
  "registerAll typs handlers = Inr tbl \<Longrightarrow> \<forall>t \<in> set handlers. checkMethodSignature t = None \<Longrightarrow>
   \<forall>t \<in> set tbl. checkMethodSignature t = None"
proof (induction typs arbitrary: handlers)
  case Nil
  then show ?case by simp
next
  case (Cons t ts)
  show ?case
  proof (cases "checkMethodSignature t")
    case None
    with Cons.prems(1) have "registerAll ts (handlers @ [t]) = Inr tbl"
      by (simp add: registerHandler_def)
    moreover have "\<forall>t \<in> set (handlers @ [t]). checkMethodSignature t = None"
      using Cons.prems(2) None by simp
    ultimately show ?thesis by (rule Cons.IH)
  next
    case (Some e)
    with Cons.prems(1) show ?thesis by (simp add: registerHandler_def)
  qed
qed

text \<open>
  Claim C4. \<^verbatim>\<open>checkMethodSignature\<close> performs the five checks of the specification in
  their order: it returns no error exactly when no check is violated, and otherwise an
  error that belongs to the first violated check; the errors of the five checks are
  pairwise different. A handler type that violates a check is refused by registration,
  and every handler type in a table that registration built passes all five checks, so a
  violating handler is never among the handlers that dispatch can invoke.
\<close>

theorem checkMethodSignature_five_ordered_checks:
  "(case firstViolated typ of
      None \<Rightarrow> checkMethodSignature typ = None
    | Some k \<Rightarrow> (\<exists>e. checkMethodSignature typ = Some e \<and> e \<in> set (checkErrors k)))
   \<and> distinct (concat (map checkErrors [1, 2, 3, 4, 5]))
   \<and> (firstViolated typ \<noteq> None \<longrightarrow> (\<exists>e. registerHandler typ handlers = Inl e))
   \<and> (registerAll typs [] = Inr tbl \<longrightarrow> (\<forall>t \<in> set tbl. firstViolated t = None))"
proof (intro conjI impI)
  show "case firstViolated typ of
      None \<Rightarrow> checkMethodSignature typ = None
    | Some k \<Rightarrow> (\<exists>e. checkMethodSignature typ = Some e \<and> e \<in> set (checkErrors k))"
    by (rule check_follows_spec)
  show "distinct (concat (map checkErrors [1, 2, 3, 4, 5]))"
    by (rule checkErrors_distinct)
next
  assume "firstViolated typ \<noteq> None"
  then have "checkMethodSignature typ \<noteq> None" by (simp add: check_None_iff)
  then show "\<exists>e. registerHandler typ handlers = Inl e"
    by (auto simp: registerHandler_def)
next
  assume "registerAll typs [] = Inr tbl"
  then have "\<forall>t \<in> set tbl. checkMethodSignature t = None"
    by (rule registerAll_checked) simp
  then show "\<forall>t \<in> set tbl. firstViolated t = None" by (simp add: check_None_iff)
qed

lemma helloType_ok: "checkMethodSignature helloType = None"
  by (simp add: checkMethodSignature_def helloType_def ptrTo_def NumIn_def NumOut_def In_def
      Out_def Implements_def ElemName_def HasSuffix_def)

lemma noContextType_rejected:
  "checkMethodSignature noContextType = Some (Errorf ''first parameter should be context.Context'')"
  by (simp add: checkMethodSignature_def noContextType_def ptrTo_def NumIn_def NumOut_def In_def
      Out_def Implements_def ElemName_def HasSuffix_def)

theorem checkMethodSignature_five_ordered_checks_witness:
  "firstViolated noContextType = Some 2
   \<and> checkMethodSignature noContextType = Some (Errorf ''first parameter should be context.Context'')
   \<and> registerHandler noContextType [] = Inl (Errorf ''first parameter should be context.Context'')
   \<and> registerAll [helloType] [] = Inr [helloType]
   \<and> helloType \<in> set [helloType] \<and> firstViolated helloType = None"
proof -
  have bad: "firstViolated noContextType = Some 2"
    by (simp add: firstViolated_cases spec_check_def noContextType_def ptrTo_def)
  have reg: "registerAll [helloType] [] = Inr [helloType]"
    by (simp add: registerHandler_def helloType_ok)
  from checkMethodSignature_five_ordered_checks [of noContextType "[]" "[helloType]" "[helloType]"]
  show ?thesis using bad reg by (simp add: noContextType_rejected registerHandler_def)
qed

subsection \<open>Dispatch\<close>

lemma handleRequest_other_error:
  "\<forall>ves. err \<noteq> ValidationErrors ves \<Longrightarrow>
   handleRequest (\<lambda>req. (Some err, b req)) visit handler ctx req = (Some err, None)"
  by (cases err) (simp_all add: handleRequest_def)

lemma handleRequest_reported_order:
  "handleRequest (\<lambda>req. (Some (ValidationErrors twoFieldErrors), req)) id (\<lambda>(c::unit) (r::unit). ((), None)) () ()
     = (Some (NewCode CodeValidationFailed ''Name is a required field''), None)"
  by (simp add: handleRequest_def Translate_def twoFieldErrors_def)

text \<open>
  Claim C5. The dispatcher takes the first element of the messages it collects by
  ranging over the map that \<^verbatim>\<open>Translate\<close> returns, and a map is visited in no fixed order.
  For a binding failure that reports \<open>Name\<close> first and \<open>Age\<close> second, an iteration that
  visits the entry of \<open>Age\<close> first makes the dispatcher return the message of \<open>Age\<close>, which
  is not the first reported field's message.
\<close>

theorem handleRequest_first_message_follows_map_order:
  "handleRequest (\<lambda>req. (Some (ValidationErrors twoFieldErrors), req)) rev (\<lambda>(c::unit) (r::unit). ((), None)) () ()
     = (Some (NewCode CodeValidationFailed ''Age must be 18 or greater''), None)
   \<and> translated (hd twoFieldErrors) = ''Name is a required field''
   \<and> set (rev (Translate twoFieldErrors)) = set (Translate twoFieldErrors)"
  by (simp add: handleRequest_def Translate_def twoFieldErrors_def insert_commute)


section \<open>Properties of package mclient\<close>

subsection \<open>The retry loop\<close>

lemma attemptRequest_error_no_response:
  "attemptRequest env cms rms r c method urlPath w = Return ((resp, Some e), r1, w1) \<Longrightarrow> resp = None"
  unfolding attemptRequest_def Let_def
  by (auto split: outcome.splits prod.splits sum.splits option.splits if_splits)

lemma attemptRequest_response_has_context:
  "attemptRequest env cms rms r c method urlPath w = Return ((Some rs, e), r1, w1) \<Longrightarrow> c \<noteq> None"
  unfolding attemptRequest_def Let_def NewRequestWithContext_def
  by (auto split: outcome.splits prod.splits sum.splits option.splits if_splits)

lemma DoRequest_loop_nil_response:
  "attempts < maxAttempts \<Longrightarrow>
   attemptRequest env cms rms r c method urlPath w = Return ((None, err1), r1, w1) \<Longrightarrow>
   DoRequest_loop env cms rms c method urlPath maxAttempts attempts resp err r w = Panic nilDeref"
  by (subst DoRequest_loop.simps) simp

lemma maxAttempts_positive:
  "0 < (if int64 (n + 1) \<le> 0 then 1 else int64 (n + 1))"
  by simp

text \<open>Whatever the retry count, an attempt that ends with an error ends the call with a
  panic: the attempt returns a \<^verbatim>\<open>nil\<close> response with its error, and the loop dereferences
  the response to ask whether to retry.\<close>

lemma DoRequest_failed_attempt_panics:
  assumes "attemptRequest env cms rms r c method urlPath w = Return ((resp, Some e), r1, w1)"
  shows "DoRequest env cms rms r c method urlPath w = Panic nilDeref"
proof -
  from assms have "resp = None" by (rule attemptRequest_error_no_response)
  with assms have a: "attemptRequest env cms rms r c method urlPath w = Return ((None, Some e), r1, w1)"
    by simp
  show ?thesis
    unfolding DoRequest_def Let_def
    by (rule DoRequest_loop_nil_response [OF maxAttempts_positive a])
qed

lemma int64_small: "- (2 ^ 63) \<le> x \<Longrightarrow> x < 2 ^ 63 \<Longrightarrow> int64 x = x"
  unfolding int64_def by (simp add: mod_pos_pos_trivial)

text \<open>With a retry count of zero or less there is exactly one attempt.\<close>

lemma DoRequest_single_attempt:
  assumes "- (2 ^ 63) \<le> retryCount r" and "retryCount r \<le> 0"
  shows "DoRequest env cms rms r c method urlPath w =
     (case attemptRequest env cms rms r c method urlPath w of
        Panic p \<Rightarrow> Panic p
      | Return ((resp1, err1), r1, w1) \<Rightarrow>
          (case resp1 of None \<Rightarrow> Panic nilDeref | Some rs \<Rightarrow> afterLoop env resp1 err1 r1 w1))"
proof -
  have "int64 (retryCount r + 1) = retryCount r + 1"
    using assms by (intro int64_small) auto
  then have m: "(if int64 (retryCount r + 1) \<le> 0 then 1 else int64 (retryCount r + 1)) = 1"
    using assms by auto
  show ?thesis
    unfolding DoRequest_def Let_def m
    by (subst DoRequest_loop.simps) (simp split: outcome.splits prod.splits option.splits)
qed

text \<open>
  Claim C1. A request with retry count 1 is sent with \<^verbatim>\<open>GET\<close> through a transport that
  refuses every call. The first attempt calls the transport once and returns no response
  and the transport's error; the call then ends with a nil-pointer panic: there is no
  second attempt, and no error is returned.
\<close>

theorem DoRequest_refusing_transport_panics:
  "panicked (GET (stubEnv refusing) [] [] retrying ''/y'' world0) = Some nilDeref
   \<and> returned (attemptRequest (stubEnv refusing) [] [] (Method retrying ''GET'') (Some Background)
        ''GET'' ''/y'' world0) = Some (None, Some (OtherError ''connection refused''))
   \<and> length (callsOf (attemptRequest (stubEnv refusing) [] [] (Method retrying ''GET'')
        (Some Background) ''GET'' ''/y'' world0)) = 1"
  by code_simp

text \<open>From any state of the retry loop in which the attempt returns a response, the retry
  condition asks for a retry and another attempt is allowed: a positive retry interval
  with the context done first ends the loop with the context's error and no further
  transport call; a retry interval of zero or less goes on to the next attempt.\<close>

lemma DoRequest_loop_retry_wait:
  assumes "attempts < maxAttempts" and "attempts + 1 < maxAttempts"
    and "attemptRequest env cms rms r c method urlPath w = Return ((Some rs, err1), r1, w1)"
    and "shouldRetry r1 (Response rs) err1"
  shows "(0 < retryInterval r1 \<and> ctxDone env (nat (attempts + 1)) = Some cerr \<longrightarrow>
           DoRequest_loop env cms rms c method urlPath maxAttempts attempts resp err r w
             = Return ((None, Some cerr), r1, logRetry r1 (Close rs w1)))
         \<and> calls (logRetry r1 (Close rs w1)) = calls w1
         \<and> (retryInterval r1 \<le> 0 \<longrightarrow>
           DoRequest_loop env cms rms c method urlPath maxAttempts attempts resp err r w
             = DoRequest_loop env cms rms c method urlPath maxAttempts (attempts + 1) None err1 r1
                 (logRetry r1 (Close rs w1)))"
proof (intro conjI impI)
  have "c \<noteq> None" using assms(3) by (rule attemptRequest_response_has_context)
  moreover assume "0 < retryInterval r1 \<and> ctxDone env (nat (attempts + 1)) = Some cerr"
  ultimately show "DoRequest_loop env cms rms c method urlPath maxAttempts attempts resp err r w
             = Return ((None, Some cerr), r1, logRetry r1 (Close rs w1))"
    using assms by (subst DoRequest_loop.simps) (auto simp: Let_def)
next
  show "calls (logRetry r1 (Close rs w1)) = calls w1"
    by (simp add: logRetry_def Close_def split: option.splits)
next
  assume "retryInterval r1 \<le> 0"
  then show "DoRequest_loop env cms rms c method urlPath maxAttempts attempts resp err r w
             = DoRequest_loop env cms rms c method urlPath maxAttempts (attempts + 1) None err1 r1
                 (logRetry r1 (Close rs w1))"
    using assms by (subst DoRequest_loop.simps) (auto simp: Let_def)
qed


text \<open>The same for \<^verbatim>\<open>DoRequest\<close> and the wait after its first attempt, for a retry count
  of at least one.\<close>

lemma DoRequest_first_wait:
  assumes "1 \<le> retryCount r" and "retryCount r < 2 ^ 63 - 1"
    and "attemptRequest env cms rms r c method urlPath w = Return ((Some rs, err1), r1, w1)"
    and "shouldRetry r1 (Response rs) err1"
  shows "(0 < retryInterval r1 \<and> ctxDone env 1 = Some cerr \<longrightarrow>
           DoRequest env cms rms r c method urlPath w
             = Return ((None, Some cerr), r1, logRetry r1 (Close rs w1)))
         \<and> calls (logRetry r1 (Close rs w1)) = calls w1
         \<and> (retryInterval r1 \<le> 0 \<longrightarrow>
           DoRequest env cms rms r c method urlPath w
             = DoRequest_loop env cms rms c method urlPath (retryCount r + 1) 1 None err1 r1
                 (logRetry r1 (Close rs w1)))"
proof -
  have "int64 (retryCount r + 1) = retryCount r + 1"
    using assms by (intro int64_small) auto
  then have m: "(if int64 (retryCount r + 1) \<le> 0 then 1 else int64 (retryCount r + 1)) = retryCount r + 1"
    using assms by auto
  have a: "(0::int) < retryCount r + 1" and b: "(0::int) + 1 < retryCount r + 1"
    using assms by auto
  have d: "DoRequest env cms rms r c method urlPath w
      = DoRequest_loop env cms rms c method urlPath (retryCount r + 1) 0 None None r w"
    unfolding DoRequest_def Let_def m ..
  show ?thesis
    unfolding d using DoRequest_loop_retry_wait [OF a b assms(3) assms(4), of cerr None None]
    by simp
qed



subsection \<open>The middleware chain\<close>

lemma applyMiddlewares_take:
  "n \<le> length ms \<Longrightarrow> applyMiddlewares ms n h = foldr (\<lambda>m h. m h) (take n ms) h"
proof (induction n arbitrary: h)
  case 0
  then show ?case by simp
next
  case (Suc n)
  then have "applyMiddlewares ms (Suc n) h = foldr (\<lambda>m h. m h) (take n ms) ((ms ! n) h)"
    by simp
  also have "\<dots> = foldr (\<lambda>m h. m h) (take n ms @ [ms ! n]) h" by simp
  also have "take n ms @ [ms ! n] = take (Suc n) ms"
    using Suc.prems by (simp add: take_Suc_conv_app_nth)
  finally show ?case .
qed

lemma Compose_foldr: "Compose terminal ms = foldr (\<lambda>m h. m h) ms terminal"
  unfolding Compose_def by (simp add: foldr_conv_foldl)

lemma chain_Compose: "chain env ms = Compose (baseHandler env) ms"
  unfolding chain_def by (simp add: applyMiddlewares_take Compose_foldr)

lemma Compose_short: "Compose terminal (pre @ (\<lambda>next. k) # post) = Compose k pre"
  by (simp add: Compose_foldr)

lemma observing_two:
  assumes "t r (w\<lparr>trace := trace w @ [a @ '' in'', b @ '' in'']\<rparr>) = Return (res, r', w')"
  shows "Compose t [observing a, observing b] r w
           = Return (res, r', w'\<lparr>trace := trace w' @ [b @ '' out'', a @ '' out'']\<rparr>)"
  using assms by (simp add: Compose_foldr observing_def)

text \<open>An attempt with at least one middleware runs the composition of the specification
  over the client's middlewares followed by the request's, on the request it has prepared.\<close>

lemma attemptRequest_afterChain:
  assumes "resolveBody env r w = Return (body, r1, w1)"
    and "NewRequestWithContext env c method
           (withQuery env (queryParams r) (fullURL (BaseURL (client r)) urlPath)) body = Inr req0"
    and "cms @ rms \<noteq> []"
  shows "attemptRequest env cms rms r c method urlPath w
           = afterChain (Compose (baseHandler env) (cms @ rms) (handed r1 req0) w1)"
  using assms
  by (simp add: attemptRequest_def Let_def afterChain_def handed_def chain_Compose
      split: outcome.splits prod.splits option.splits)

text \<open>
  Claim C2. Take an attempt whose body resolution and request construction succeed. With
  at least one middleware, the attempt executes the composition of the specification over
  the client's middlewares followed by the request's: the base handler wrapped by each
  middleware in reverse index order, so that the middleware at index 0 is outermost. With
  a client middleware \<open>A\<close> and a request middleware \<open>B\<close> it executes \<open>A (B base)\<close>; two
  observing middlewares see the request in the order A, B before the base handler runs
  and the response in the order B, A after it. If the outermost middleware answers the
  request without calling the handler it wraps, that answer is the outcome of the chain
  whatever the later middlewares and the base handler are; and a middleware that never calls
  the handler it wraps, at any index, cuts the chain off: the attempt executes the
  middlewares before it around its answer.
\<close>

theorem attemptRequest_runs_composed_chain:
  assumes "resolveBody env r w = Return (body, r1, w1)"
    and "NewRequestWithContext env c method
           (withQuery env (queryParams r) (fullURL (BaseURL (client r)) urlPath)) body = Inr req0"
  shows "(cms @ rms \<noteq> [] \<longrightarrow>
            attemptRequest env cms rms r c method urlPath w
              = afterChain (Compose (baseHandler env) (cms @ rms) (handed r1 req0) w1))
         \<and> attemptRequest env [A] [B] r c method urlPath w
              = afterChain (A (B (baseHandler env)) (handed r1 req0) w1)
         \<and> (baseHandler env (handed r1 req0) (w1\<lparr>trace := trace w1 @ [a @ '' in'', b @ '' in'']\<rparr>)
              = Return ((resp, None), r', w') \<longrightarrow>
            attemptRequest env [observing a] [observing b] r c method urlPath w
              = Return ((resp, None), SetResponse r' resp,
                        w'\<lparr>trace := trace w' @ [b @ '' out'', a @ '' out'']\<rparr>))
         \<and> ((\<forall>next. M next (handed r1 req0) w1 = out) \<longrightarrow>
            attemptRequest env (M # ms) rms r c method urlPath w = afterChain out)
         \<and> attemptRequest env (pre @ (\<lambda>next. k) # post) rms r c method urlPath w
              = afterChain (Compose k pre (handed r1 req0) w1)"
proof (intro conjI impI)
  assume "cms @ rms \<noteq> []"
  with assms show "attemptRequest env cms rms r c method urlPath w
              = afterChain (Compose (baseHandler env) (cms @ rms) (handed r1 req0) w1)"
    by (rule attemptRequest_afterChain)
next
  have "[A] @ [B] \<noteq> []" by simp
  with assms have "attemptRequest env [A] [B] r c method urlPath w
      = afterChain (Compose (baseHandler env) ([A] @ [B]) (handed r1 req0) w1)"
    by (rule attemptRequest_afterChain)
  then show "attemptRequest env [A] [B] r c method urlPath w
              = afterChain (A (B (baseHandler env)) (handed r1 req0) w1)"
    by (simp add: Compose_foldr)
next
  assume b: "baseHandler env (handed r1 req0) (w1\<lparr>trace := trace w1 @ [a @ '' in'', b @ '' in'']\<rparr>)
              = Return ((resp, None), r', w')"
  have "[observing a] @ [observing b] \<noteq> []" by simp
  with assms have "attemptRequest env [observing a] [observing b] r c method urlPath w
      = afterChain (Compose (baseHandler env) ([observing a] @ [observing b]) (handed r1 req0) w1)"
    by (rule attemptRequest_afterChain)
  also have "Compose (baseHandler env) ([observing a] @ [observing b]) (handed r1 req0) w1
      = Return ((resp, None), r', w'\<lparr>trace := trace w' @ [b @ '' out'', a @ '' out'']\<rparr>)"
    using observing_two [of "baseHandler env" "handed r1 req0" w1 a b "(resp, None)" r' w'] b by simp
  finally show "attemptRequest env [observing a] [observing b] r c method urlPath w
              = Return ((resp, None), SetResponse r' resp,
                        w'\<lparr>trace := trace w' @ [b @ '' out'', a @ '' out'']\<rparr>)"
    by (simp add: afterChain_def)
next
  assume m: "\<forall>next. M next (handed r1 req0) w1 = out"
  have "(M # ms) @ rms \<noteq> []" by simp
  with assms have "attemptRequest env (M # ms) rms r c method urlPath w
      = afterChain (Compose (baseHandler env) ((M # ms) @ rms) (handed r1 req0) w1)"
    by (rule attemptRequest_afterChain)
  with m show "attemptRequest env (M # ms) rms r c method urlPath w = afterChain out"
    by (simp add: Compose_foldr)
next
  have "(pre @ (\<lambda>next. k) # post) @ rms \<noteq> []" by simp
  with assms have "attemptRequest env (pre @ (\<lambda>next. k) # post) rms r c method urlPath w
      = afterChain (Compose (baseHandler env) ((pre @ (\<lambda>next. k) # post) @ rms) (handed r1 req0) w1)"
    by (rule attemptRequest_afterChain)
  then show "attemptRequest env (pre @ (\<lambda>next. k) # post) rms r c method urlPath w
              = afterChain (Compose k pre (handed r1 req0) w1)"
    using Compose_short [of "baseHandler env" pre k "post @ rms"] by simp
qed


theorem attemptRequest_runs_composed_chain_witness:
  "resolveBody (stubEnv (answering 200)) getReq world0 = Return (None, getReq, world0)
   \<and> NewRequestWithContext (stubEnv (answering 200)) (Some (Ctx 1)) ''GET''
         (withQuery (stubEnv (answering 200)) (queryParams getReq) (fullURL (BaseURL (client getReq)) ''/y''))
         None = Inr sentGet
   \<and> [observing ''A''] @ [observing ''B''] \<noteq> []
   \<and> traceOf (attemptRequest (stubEnv (answering 200)) [observing ''A''] [observing ''B''] getReq
         (Some (Ctx 1)) ''GET'' ''/y'' world0) = [''A in'', ''B in'', ''B out'', ''A out'']
   \<and> length (callsOf (attemptRequest (stubEnv (answering 200)) [observing ''A''] [observing ''B''] getReq
         (Some (Ctx 1)) ''GET'' ''/y'' world0)) = 1
   \<and> (\<forall>next. answeringItself ''A'' blocked next (handed getReq sentGet) world0
          = Return (blocked, handed getReq sentGet, world0\<lparr>trace := [''A alone'']\<rparr>))
   \<and> attemptRequest (stubEnv (answering 200)) [answeringItself ''A'' blocked] [observing ''B''] getReq
         (Some (Ctx 1)) ''GET'' ''/y'' world0
          = Return (blocked, handed getReq sentGet, world0\<lparr>trace := [''A alone'']\<rparr>)
   \<and> calls (world0\<lparr>trace := [''A alone'']\<rparr>) = []"
proof -
  let ?E = "stubEnv (answering 200)"
  let ?r2 = "handed getReq sentGet"
  let ?ok = "Some \<lparr>Response = Some \<lparr>StatusCode = 200\<rparr>\<rparr>"
  let ?w' = "world0\<lparr>trace := [''A in'', ''B in''], calls := [(sentGet, [])]\<rparr>"
  have rb: "resolveBody ?E getReq world0 = Return (None, getReq, world0)"
    by (simp add: resolveBody_def getReq_def Method_def NewRequest_def headerRequest_def
        zeroRequest_def Let_def)
  have nr: "NewRequestWithContext ?E (Some (Ctx 1)) ''GET''
         (withQuery ?E (queryParams getReq) (fullURL (BaseURL (client getReq)) ''/y'')) None = Inr sentGet"
    by (simp add: NewRequestWithContext_def stubEnv_def withQuery_def getReq_def Method_def
        NewRequest_def client0_def fullURL_def HasPrefix_def HasSuffix_def sentGet_def Let_def)
  have hd: "Request ?r2 = Some sentGet"
    by (simp add: handed_def getReq_def Method_def NewRequest_def client0_def headerRequest_def
        zeroRequest_def copyHeadersOpt_def sentGet_def Let_def)
  have sb: "reqBody sentGet = None" by (simp add: sentGet_def)
  have base: "baseHandler ?E ?r2 (world0\<lparr>trace := trace world0 @ [''A'' @ '' in'', ''B'' @ '' in'']\<rparr>)
      = Return ((?ok, None), ?r2, ?w')"
    by (simp add: baseHandler_def hd sb clientDo_def stubEnv_def answering_def world0_def Let_def)
  have alone: "\<forall>next. answeringItself ''A'' blocked next ?r2 world0
          = Return (blocked, ?r2, world0\<lparr>trace := [''A alone'']\<rparr>)"
    by (simp add: answeringItself_def world0_def)
  note T = attemptRequest_runs_composed_chain [OF rb nr, of "[observing ''A'']" "[observing ''B'']"
      "observing ''A''" "observing ''B''" "''A''" "''B''" ?ok ?r2 ?w'
      "answeringItself ''A'' blocked" "Return (blocked, ?r2, world0\<lparr>trace := [''A alone'']\<rparr>)"
      "[]" "[observing ''B'']"]
  have t: "attemptRequest ?E [observing ''A''] [observing ''B''] getReq (Some (Ctx 1)) ''GET'' ''/y'' world0
      = Return ((?ok, None), SetResponse ?r2 ?ok,
          ?w'\<lparr>trace := trace ?w' @ [''B'' @ '' out'', ''A'' @ '' out'']\<rparr>)"
    using T base by blast
  have s: "attemptRequest ?E (answeringItself ''A'' blocked # []) [observing ''B''] getReq
         (Some (Ctx 1)) ''GET'' ''/y'' world0
      = afterChain (Return (blocked, ?r2, world0\<lparr>trace := [''A alone'']\<rparr>))"
    using T alone by blast
  show ?thesis using rb nr t s alone
    by (simp add: traceOf_def callsOf_def world0_def afterChain_def blocked_def)
qed


subsection \<open>The full URL\<close>

lemma HasSuffix_slash: "HasSuffix base ''/'' \<Longrightarrow> butlast base @ ''/'' = base"
proof -
  assume h: "HasSuffix base ''/''"
  then have ne: "base \<noteq> []" by (auto simp: HasSuffix_def)
  from h have "drop (length base - 1) base = ''/''" by (simp add: HasSuffix_def)
  then have "last base = CHR ''/''"
    using ne by (metis last_drop last.simps diff_less length_greater_0_conv zero_less_one)
  then show ?thesis using ne by (metis append_butlast_last_id)
qed

lemma HasPrefix_slash: "HasPrefix path ''/'' \<Longrightarrow> ''/'' @ drop 1 path = path"
  by (cases path) (simp_all add: HasPrefix_def)

lemma HasSuffix_rev: "HasSuffix s suf \<longleftrightarrow> HasPrefix (rev s) (rev suf)"
proof
  assume "HasSuffix s suf"
  then have l: "length suf \<le> length s" and d: "drop (length s - length suf) s = suf"
    by (auto simp: HasSuffix_def)
  have "take (length suf) (rev s) = rev (drop (length s - length suf) s)"
    by (simp add: take_rev)
  with d show "HasPrefix (rev s) (rev suf)" by (simp add: HasPrefix_def)
next
  assume "HasPrefix (rev s) (rev suf)"
  then have t: "take (length suf) (rev s) = rev suf" by (simp add: HasPrefix_def)
  then have "length (take (length suf) (rev s)) = length (rev suf)" by simp
  then have l: "length suf \<le> length s" by simp
  have "rev (drop (length s - length suf) s) = take (length suf) (rev s)"
    by (simp add: take_rev)
  with t have "drop (length s - length suf) s = suf" by (metis rev_rev_ident)
  with l show "HasSuffix s suf" by (simp add: HasSuffix_def)
qed

text \<open>With at most one slash at the joint on each side, trimming all slashes trims one.\<close>

lemma trim_left:
  "\<not> HasPrefix path ''//'' \<Longrightarrow>
   dropWhile isSlash path = (if HasPrefix path ''/'' then drop 1 path else path)"
  by (cases path; cases "tl path") (auto simp: HasPrefix_def isSlash_def)

lemma trim_right:
  assumes "\<not> HasSuffix base ''//''"
  shows "rev (dropWhile isSlash (rev base)) = (if HasSuffix base ''/'' then butlast base else base)"
proof -
  have n: "\<not> HasPrefix (rev base) ''//''" using assms by (simp add: HasSuffix_rev)
  have "dropWhile isSlash (rev base) = (if HasPrefix (rev base) ''/'' then drop 1 (rev base) else rev base)"
    using n by (rule trim_left)
  moreover have "HasPrefix (rev base) ''/'' \<longleftrightarrow> HasSuffix base ''/''" by (simp add: HasSuffix_rev)
  moreover have "rev (drop 1 (rev base)) = butlast base" by (simp add: butlast_conv_take rev_drop drop_rev)
  ultimately show ?thesis by (metis rev_rev_ident)
qed


text \<open>
  Claim C6, as stated, fails for a path that is itself an absolute URL: the base URL is not
  used at all, where the join of the specification would put it in front.
\<close>

theorem fullURL_counterexample:
  "fullURL ''http://x'' ''https://y/z'' = ''https://y/z''
   \<and> spec_join ''http://x'' ''https://y/z'' = ''http://x/https://y/z''"
  by (simp add: fullURL_def spec_join_def HasPrefix_def HasSuffix_def isSlash_def)

text \<open>With more than one slash at the joint the code removes one only.\<close>

lemma fullURL_double_slash: "fullURL ''http://x/'' ''//y'' = ''http://x//y''"
  by (simp add: fullURL_def HasPrefix_def HasSuffix_def)

text \<open>
  Claim C6, amended. If the base URL is not empty, the path does not begin with
  \<open>http://\<close> or \<open>https://\<close>, the base ends with at most one slash and the path begins
  with at most one slash, the full URL joins base and path with exactly one separating
  slash; if the base URL is empty or the path begins with \<open>http://\<close> or \<open>https://\<close>, the
  full URL is the path as it is. The two examples of the specification compose to
  \<open>http://x/y\<close>.
\<close>

theorem fullURL_joins_relative_path:
  "(base \<noteq> '''' \<and> \<not> HasPrefix path ''http://'' \<and> \<not> HasPrefix path ''https://''
      \<and> \<not> HasSuffix base ''//'' \<and> \<not> HasPrefix path ''//'' \<longrightarrow>
      fullURL base path = spec_join base path)
   \<and> (base = '''' \<or> HasPrefix path ''http://'' \<or> HasPrefix path ''https://'' \<longrightarrow>
      fullURL base path = path)
   \<and> fullURL ''http://x/'' ''/y'' = ''http://x/y''
   \<and> fullURL ''http://x'' ''y'' = ''http://x/y''"
proof (intro conjI impI)
  assume a: "base \<noteq> '''' \<and> \<not> HasPrefix path ''http://'' \<and> \<not> HasPrefix path ''https://''
      \<and> \<not> HasSuffix base ''//'' \<and> \<not> HasPrefix path ''//''"
  then have j: "spec_join base path
      = (if HasSuffix base ''/'' then butlast base else base) @ ''/'' @
        (if HasPrefix path ''/'' then drop 1 path else path)"
    by (simp add: spec_join_def trim_left trim_right)
  show "fullURL base path = spec_join base path"
  proof (cases "HasSuffix base ''/''")
    case True
    note s = HasSuffix_slash [OF True]
    show ?thesis
    proof (cases "HasPrefix path ''/''")
      case True
      have "base @ drop 1 path = (butlast base @ ''/'') @ drop 1 path" by (simp only: s)
      with a True \<open>HasSuffix base ''/''\<close> show ?thesis by (simp add: fullURL_def j)
    next
      case False
      have "base @ path = (butlast base @ ''/'') @ path" by (simp only: s)
      with a False \<open>HasSuffix base ''/''\<close> show ?thesis by (simp add: fullURL_def j)
    qed
  next
    case False
    show ?thesis
    proof (cases "HasPrefix path ''/''")
      case True
      have "base @ path = base @ ''/'' @ drop 1 path" by (simp only: HasPrefix_slash [OF True])
      with a True False show ?thesis by (simp add: fullURL_def j)
    next
      case f: False
      with a False show ?thesis by (simp add: fullURL_def j)
    qed
  qed
next
  assume "base = '''' \<or> HasPrefix path ''http://'' \<or> HasPrefix path ''https://''"
  then show "fullURL base path = path" by (auto simp: fullURL_def)
next
  show "fullURL ''http://x/'' ''/y'' = ''http://x/y''"
    by (simp add: fullURL_def HasPrefix_def HasSuffix_def)
  show "fullURL ''http://x'' ''y'' = ''http://x/y''"
    by (simp add: fullURL_def HasPrefix_def HasSuffix_def)
qed

theorem fullURL_joins_relative_path_witness:
  "''http://x/'' \<noteq> '''' \<and> \<not> HasPrefix ''/y'' ''http://'' \<and> \<not> HasPrefix ''/y'' ''https://''
   \<and> \<not> HasSuffix ''http://x/'' ''//'' \<and> \<not> HasPrefix ''/y'' ''//''
   \<and> fullURL ''http://x/'' ''/y'' = spec_join ''http://x/'' ''/y''
   \<and> spec_join ''http://x/'' ''/y'' = ''http://x/y''
   \<and> HasPrefix ''https://y/z'' ''https://''
   \<and> fullURL ''http://x'' ''https://y/z'' = ''https://y/z''"
proof -
  have r: "''http://x/'' \<noteq> '''' \<and> \<not> HasPrefix ''/y'' ''http://'' \<and> \<not> HasPrefix ''/y'' ''https://''
      \<and> \<not> HasSuffix ''http://x/'' ''//'' \<and> \<not> HasPrefix ''/y'' ''//''"
    by (simp add: HasPrefix_def HasSuffix_def)
  have ab: "''http://x'' = '''' \<or> HasPrefix ''https://y/z'' ''http://'' \<or> HasPrefix ''https://y/z'' ''https://''"
    by (simp add: HasPrefix_def)
  have sj: "spec_join ''http://x/'' ''/y'' = ''http://x/y''"
    by (simp add: spec_join_def isSlash_def)
  from fullURL_joins_relative_path [of "''http://x/''" "''/y''"]
       fullURL_joins_relative_path [of "''http://x''" "''https://y/z''"]
  show ?thesis using r ab sj by (simp add: HasPrefix_def HasSuffix_def)
qed

subsection \<open>Send\<close>

text \<open>
  Claim C10. When \<^verbatim>\<open>Send\<close> is called on a request whose embedded request is still unset,
  the call panics with a nil-pointer dereference: the context is read from the embedded
  request before \<^verbatim>\<open>DoRequest\<close> is entered, so there is no default to \<open>GET\<close>.
\<close>

theorem Send_without_request_panics:
  "Request r = None \<Longrightarrow> Send env cms rms r url w = Panic nilDeref"
  by (simp add: Send_def Request_Context_def)

theorem Send_without_request_panics_witness:
  "Request (NewRequest client0) = None
   \<and> Send (stubEnv (answering 200)) [] [] (NewRequest client0) ''/y'' world0 = Panic nilDeref"
proof -
  have n: "Request (NewRequest client0) = None" by (simp add: NewRequest_def)
  from Send_without_request_panics [OF n, of "stubEnv (answering 200)" "[]" "[]" "''/y''" world0] n
  show ?thesis by simp
qed


subsection \<open>The body\<close>

text \<open>
  Claim C8, as stated, fails: after \<^verbatim>\<open>SetBody\<close> with a reader that holds \<open>abc\<close>, the body of
  the request is that reader itself, the world is as it was, and the reader still holds
  \<open>abc\<close> unread.
\<close>

theorem Data_reader_counterexample:
  "Data (NewRequest client0) (DReader 0) streamWorld = Return (streamReq, streamWorld)
   \<and> bodyOf streamReq = Some 0
   \<and> unread (readers streamWorld 0) = ''abc''"
  by (simp add: Data_def NewRequest_def setBody_def streamReq_def bodyOf_def streamWorld_def
      NewReader_def world0_def)

lemma resolveBody_drains:
  assumes "formParams r = []" and "Request r = Some hr" and "reqBody hr = Some a"
    and "fault (readers w a) = None" and "a < fresh w"
  shows "\<exists>w'. resolveBody env r w = Return (Some (fresh w), setBody r hr (Suc (fresh w)), w')
           \<and> unread (readers w' a) = []
           \<and> unread (readers w' (fresh w)) = unread (readers w a)
           \<and> unread (readers w' (Suc (fresh w))) = unread (readers w a)
           \<and> calls w' = calls w"
  using assms by (simp add: resolveBody_def ReadAll_def NewReader_def Let_def)

text \<open>
  Claim C8, amended. \<^verbatim>\<open>Data\<close> stores a reader it is given as the body of the request,
  the reader itself, and reads nothing from it: the world is unchanged. The reader is
  drained when an attempt resolves its body, if no form parameters are set and the reader
  does not fail: then nothing is left unread in it, and the body of the attempt and the
  body kept on the request are two new readers over the bytes it held.
\<close>

theorem Data_stores_reader_undrained:
  "Data r (DReader a) w
     = Return (setBody (r\<lparr>Request := Some (case Request r of None \<Rightarrow> headerRequest | Some hr \<Rightarrow> hr)\<rparr>)
                 (case Request r of None \<Rightarrow> headerRequest | Some hr \<Rightarrow> hr) a, w)
   \<and> bodyOf (setBody r' hr' a) = Some a
   \<and> (formParams r1 = [] \<and> Request r1 = Some hr \<and> reqBody hr = Some b
        \<and> fault (readers w1 b) = None \<and> b < fresh w1 \<longrightarrow>
       (\<exists>w'. resolveBody env r1 w1 = Return (Some (fresh w1), setBody r1 hr (Suc (fresh w1)), w')
           \<and> unread (readers w' b) = []
           \<and> unread (readers w' (fresh w1)) = unread (readers w1 b)
           \<and> unread (readers w' (Suc (fresh w1))) = unread (readers w1 b)
           \<and> calls w' = calls w1))"
proof (intro conjI impI)
  show "Data r (DReader a) w
     = Return (setBody (r\<lparr>Request := Some (case Request r of None \<Rightarrow> headerRequest | Some hr \<Rightarrow> hr)\<rparr>)
                 (case Request r of None \<Rightarrow> headerRequest | Some hr \<Rightarrow> hr) a, w)"
    by (simp add: Data_def Let_def)
  show "bodyOf (setBody r' hr' a) = Some a" by (simp add: bodyOf_def setBody_def)
next
  assume "formParams r1 = [] \<and> Request r1 = Some hr \<and> reqBody hr = Some b
        \<and> fault (readers w1 b) = None \<and> b < fresh w1"
  then show "\<exists>w'. resolveBody env r1 w1 = Return (Some (fresh w1), setBody r1 hr (Suc (fresh w1)), w')
           \<and> unread (readers w' b) = []
           \<and> unread (readers w' (fresh w1)) = unread (readers w1 b)
           \<and> unread (readers w' (Suc (fresh w1))) = unread (readers w1 b)
           \<and> calls w' = calls w1"
    by (intro resolveBody_drains) auto
qed

theorem Data_stores_reader_undrained_witness:
  "formParams streamReq = [] \<and> Request streamReq = Some (headerRequest\<lparr>reqBody := Some 0\<rparr>)
   \<and> reqBody (headerRequest\<lparr>reqBody := Some 0\<rparr>) = Some 0
   \<and> fault (readers streamWorld 0) = None \<and> 0 < fresh streamWorld
   \<and> unread (readers streamWorld 0) = ''abc''
   \<and> (\<exists>w'. resolveBody (stubEnv refusing) streamReq streamWorld
              = Return (Some 1, setBody streamReq (headerRequest\<lparr>reqBody := Some 0\<rparr>) 2, w')
           \<and> unread (readers w' 0) = []
           \<and> unread (readers w' 1) = ''abc''
           \<and> unread (readers w' 2) = ''abc'')"
proof -
  have h: "formParams streamReq = [] \<and> Request streamReq = Some (headerRequest\<lparr>reqBody := Some 0\<rparr>)
   \<and> reqBody (headerRequest\<lparr>reqBody := Some 0\<rparr>) = Some 0
   \<and> fault (readers streamWorld 0) = None \<and> 0 < fresh streamWorld"
    by (simp add: streamReq_def NewRequest_def streamWorld_def NewReader_def world0_def)
  have v: "unread (readers streamWorld 0) = ''abc''" "fresh streamWorld = 1"
    by (simp_all add: streamWorld_def NewReader_def world0_def)
  from Data_stores_reader_undrained [of "NewRequest client0" 0 streamWorld streamReq "headerRequest"
      streamReq "headerRequest\<lparr>reqBody := Some 0\<rparr>" 0 streamWorld "stubEnv refusing"] h
  have "\<exists>w'. resolveBody (stubEnv refusing) streamReq streamWorld
           = Return (Some (fresh streamWorld), setBody streamReq (headerRequest\<lparr>reqBody := Some 0\<rparr>) (Suc (fresh streamWorld)), w')
           \<and> unread (readers w' 0) = []
           \<and> unread (readers w' (fresh streamWorld)) = unread (readers streamWorld 0)
           \<and> unread (readers w' (Suc (fresh streamWorld))) = unread (readers streamWorld 0)
           \<and> calls w' = calls streamWorld"
    by blast
  then show ?thesis using h v by (auto simp: numeral_2_eq_2)
qed


lemma canonical_Content_Type: "CanonicalMIMEHeaderKey ''Content-Type'' = ''Content-Type''"
  by code_simp

lemma Header_Get_Set: "Header_Get (Some (Header_Set m key v)) key = v"
  by (simp add: Header_Get_def Header_Set_def update_conv')

lemma Header_Get_empty: "Header_Get (Some []) key = ''''"
  by (simp add: Header_Get_def)

text \<open>When \<^verbatim>\<open>json.Marshal\<close> fails, \<^verbatim>\<open>Data\<close> returns normally: the failure is logged, and the
  request is as it was but for the embedded request being created.\<close>

lemma Data_marshal_failure:
  "Data r (DOther (Inl e)) w
     = Return (r\<lparr>Request := Some (case Request r of None \<Rightarrow> headerRequest | Some hr \<Rightarrow> hr)\<rparr>,
               w\<lparr>logs := logs w @ [''JSON marshal failed:'']\<rparr>)"
  by (simp add: Data_def Let_def)

lemma Data_marshal_failure_body:
  "Data r (DOther (Inl e)) w = Return (r', w') \<Longrightarrow> bodyOf r' = bodyOf r"
  by (auto simp: Data_marshal_failure bodyOf_def headerRequest_def zeroRequest_def split: option.splits)

text \<open>When \<^verbatim>\<open>json.Marshal\<close> succeeds, no content type is set and the header map is not
  \<^verbatim>\<open>nil\<close>, the body is a new reader over the JSON bytes and the content type is
  \<open>application/json\<close>.\<close>

lemma Data_json_content_type:
  assumes "headerReady r" and "contentTypeOf r = ''''"
  shows "\<exists>r'. Data r (DOther (Inr jsonBytes)) w = Return (r', snd (NewReader jsonBytes w))
           \<and> bodyOf r' = Some (fresh w)
           \<and> contentTypeOf r' = ''application/json''"
proof (cases "Request r")
  case None
  then show ?thesis
    by (simp add: Data_def NewReader_def Let_def ContentType_def Header_def setBody_def
        headerRequest_def zeroRequest_def Header_Get_empty bodyOf_def contentTypeOf_def
        Header_Get_Set)
next
  case (Some hr)
  with assms obtain m where m: "reqHeader hr = Some m"
    by (auto simp: headerReady_def split: option.splits)
  from assms(2) Some have g: "Header_Get (reqHeader hr) ''Content-Type'' = ''''"
    by (simp add: contentTypeOf_def)
  show ?thesis
    using Some m g
    by (simp add: Data_def NewReader_def Let_def ContentType_def Header_def setBody_def
        bodyOf_def contentTypeOf_def Header_Get_Set)
qed

text \<open>
  Claim C9. A new request on which \<^verbatim>\<open>SetContext\<close> was called has an embedded request with
  a \<^verbatim>\<open>nil\<close> header map and no content type. \<^verbatim>\<open>Data\<close> with a value that \<^verbatim>\<open>json.Marshal\<close>
  serializes then panics, in the assignment to the header map, where the claim has the
  call return with the content type \<open>application/json\<close>.
\<close>

theorem Data_json_after_SetContext_panics:
  "panicked (Data withContext (DOther (Inr ''{}'')) world0) = Some nilMap
   \<and> contentTypeOf withContext = ''''
   \<and> \<not> headerReady withContext"
  by code_simp

text \<open>With form parameters (and a header map that is not \<^verbatim>\<open>nil\<close>), the body of the attempt
  is a new reader over the encoded form, whatever body the request holds.\<close>

lemma resolveBody_form:
  assumes "formParams r \<noteq> []" and "headerReady r"
  shows "\<exists>r'. resolveBody env r w = Return (Some (fresh w), r', snd (NewReader (Encode env (formParams r)) w))
           \<and> contentTypeOf r' = ''application/x-www-form-urlencoded''
           \<and> bodyOf r' = bodyOf r"
proof (cases "Request r")
  case None
  with assms show ?thesis
    by (simp add: resolveBody_def NewReader_def Let_def ContentType_def Header_def
        headerRequest_def zeroRequest_def bodyOf_def contentTypeOf_def
        Header_Get_Set)
next
  case (Some hr)
  with assms obtain m where m: "reqHeader hr = Some m"
    by (auto simp: headerReady_def split: option.splits)
  show ?thesis
    using Some m assms(1)
    by (simp add: resolveBody_def NewReader_def Let_def ContentType_def Header_def
        bodyOf_def contentTypeOf_def Header_Get_Set)
qed

text \<open>After an attempt without form parameters and without middlewares, the body of the
  request is the reader that was given to the transport, holding what the transport left
  unread: the second reader over the body bytes is lost when the new request replaces the
  embedded one.\<close>

lemma attemptRequest_keeps_sent_reader:
  assumes "formParams r = []" and "Request r = Some hr" and "reqBody hr = Some b"
    and "fault (readers w b) = None" and "b < fresh w"
    and "NewRequestWithContext env c method
           (withQuery env (queryParams r) (fullURL (BaseURL (client r)) urlPath)) (Some (fresh w)) = Inr req0"
    and "attemptRequest env [] [] r c method urlPath w = Return (res, r', w')"
  shows "bodyOf r' = Some (fresh w)
         \<and> snd (last (calls w')) = unread (readers w b)
         \<and> length (calls w') = Suc (length (calls w))
         \<and> unread (readers w' (fresh w))
              = drop (snd (Do env (length (calls w)) (fst (last (calls w'))) (unread (readers w b))))
                  (unread (readers w b))
         \<and> fault (readers w' (fresh w)) = None"
  using assms
  by (auto simp: attemptRequest_def resolveBody_def ReadAll_def NewReader_def Let_def setBody_def
      clientDo_def bodyOf_def SetResponse_def NewRequestWithContext_def
      split: option.splits sum.splits prod.splits)

text \<open>
  Claim C7. A request with the body \<open>abc\<close> and retry count 1 is sent with \<^verbatim>\<open>POST\<close> through
  a transport that reads the whole body and answers 500: the first attempt offers the
  body \<open>abc\<close>, the second attempt an empty body.
\<close>

theorem retry_sends_drained_body:
  "sentBodies postAbc = [''abc'', '''']"
  by code_simp

end
